theory Spec2Isabelle
  imports Main "HOL-Library.Word"
begin

unbundle bit_operations_syntax

section \<open>The USB DFU function driver (usb/class/dfu/device/dfudf.c)\<close>

text \<open>
  The driver keeps the DFU state machine in global variables and advances it from two
  request handlers, \<open>dfudf_in_req\<close> (device to host) and \<open>dfudf_out_req\<close> (host to
  device), which \<open>dfudf_req\<close> dispatches to. The globals become one record that every
  handler takes and returns; the control transfers a handler asks \<open>usbdc_xfer\<close> for are
  appended to a log kept in that record.
\<close>

subsection \<open>Declarations of usb\_protocol\_dfu.h and of the USB device stack\<close>

text \<open>
  Modelled from the spec: \<open>enum usb_dfu_state\<close>, declared in usb\_protocol\_dfu.h, which
  is not among the sources. The constructors are the nine states the spec lists (Idle,
  DnloadSync, DnBusy, DnloadIdle, ManifestSync, Manifest, ManifestWaitReset, UploadIdle,
  Error) under the names dfudf.c uses for them.
\<close>

datatype usb_dfu_state =
    USB_DFU_STATE_DFU_IDLE
  | USB_DFU_STATE_DFU_DNLOAD_SYNC
  | USB_DFU_STATE_DFU_DNBUSY
  | USB_DFU_STATE_DFU_DNLOAD_IDLE
  | USB_DFU_STATE_DFU_MANIFEST_SYNC
  | USB_DFU_STATE_DFU_MANIFEST
  | USB_DFU_STATE_DFU_MANIFEST_WAIT_RESET
  | USB_DFU_STATE_DFU_UPLOAD_IDLE
  | USB_DFU_STATE_DFU_ERROR

text \<open>
  Modelled from the spec: the value of each enumerator of \<open>enum usb_dfu_state\<close>. The
  spec gives no numbers; it says the protocol is the USB Device Firmware Upgrade class,
  whose bState codes (DFU 1.1, section 6.1.2) are used here: dfuIDLE is 2 and dfuERROR
  is 10.
\<close>

fun usb_dfu_state_value :: "usb_dfu_state \<Rightarrow> nat" where
  "usb_dfu_state_value USB_DFU_STATE_DFU_IDLE = 2"
| "usb_dfu_state_value USB_DFU_STATE_DFU_DNLOAD_SYNC = 3"
| "usb_dfu_state_value USB_DFU_STATE_DFU_DNBUSY = 4"
| "usb_dfu_state_value USB_DFU_STATE_DFU_DNLOAD_IDLE = 5"
| "usb_dfu_state_value USB_DFU_STATE_DFU_MANIFEST_SYNC = 6"
| "usb_dfu_state_value USB_DFU_STATE_DFU_MANIFEST = 7"
| "usb_dfu_state_value USB_DFU_STATE_DFU_MANIFEST_WAIT_RESET = 8"
| "usb_dfu_state_value USB_DFU_STATE_DFU_UPLOAD_IDLE = 9"
| "usb_dfu_state_value USB_DFU_STATE_DFU_ERROR = 10"

text \<open>
  Modelled from the spec: \<open>enum usb_dfu_status\<close> of usb\_protocol\_dfu.h (not among the
  sources): Ok plus a set of error codes, of which dfudf.c names the program error. The
  constructors and their values are the bStatus codes of DFU 1.1, section 6.1.2.
\<close>

datatype usb_dfu_status =
    USB_DFU_STATUS_OK
  | USB_DFU_STATUS_ERR_TARGET
  | USB_DFU_STATUS_ERR_FILE
  | USB_DFU_STATUS_ERR_WRITE
  | USB_DFU_STATUS_ERR_ERASE
  | USB_DFU_STATUS_ERR_CHECK_ERASED
  | USB_DFU_STATUS_ERR_PROG
  | USB_DFU_STATUS_ERR_VERIFY
  | USB_DFU_STATUS_ERR_ADDRESS
  | USB_DFU_STATUS_ERR_NOTDONE
  | USB_DFU_STATUS_ERR_FIRMWARE
  | USB_DFU_STATUS_ERR_VENDOR
  | USB_DFU_STATUS_ERR_USBR
  | USB_DFU_STATUS_ERR_POR
  | USB_DFU_STATUS_ERR_UNKNOWN
  | USB_DFU_STATUS_ERR_STALLEDPKT

fun usb_dfu_status_value :: "usb_dfu_status \<Rightarrow> nat" where
  "usb_dfu_status_value USB_DFU_STATUS_OK = 0"
| "usb_dfu_status_value USB_DFU_STATUS_ERR_TARGET = 1"
| "usb_dfu_status_value USB_DFU_STATUS_ERR_FILE = 2"
| "usb_dfu_status_value USB_DFU_STATUS_ERR_WRITE = 3"
| "usb_dfu_status_value USB_DFU_STATUS_ERR_ERASE = 4"
| "usb_dfu_status_value USB_DFU_STATUS_ERR_CHECK_ERASED = 5"
| "usb_dfu_status_value USB_DFU_STATUS_ERR_PROG = 6"
| "usb_dfu_status_value USB_DFU_STATUS_ERR_VERIFY = 7"
| "usb_dfu_status_value USB_DFU_STATUS_ERR_ADDRESS = 8"
| "usb_dfu_status_value USB_DFU_STATUS_ERR_NOTDONE = 9"
| "usb_dfu_status_value USB_DFU_STATUS_ERR_FIRMWARE = 10"
| "usb_dfu_status_value USB_DFU_STATUS_ERR_VENDOR = 11"
| "usb_dfu_status_value USB_DFU_STATUS_ERR_USBR = 12"
| "usb_dfu_status_value USB_DFU_STATUS_ERR_POR = 13"
| "usb_dfu_status_value USB_DFU_STATUS_ERR_UNKNOWN = 14"
| "usb_dfu_status_value USB_DFU_STATUS_ERR_STALLEDPKT = 15"

text \<open>
  Modelled from the spec: the class request codes of usb\_protocol\_dfu.h (not among the
  sources), the values of \<open>bRequest\<close> that the two \<open>switch\<close> statements name. The
  numbers are the request codes of DFU 1.1, section 3; the theorems below use that they
  are distinct, as the \<open>case\<close> labels of one \<open>switch\<close> are.
\<close>

definition USB_DFU_DETACH :: "8 word" where "USB_DFU_DETACH = 0"
definition USB_DFU_DNLOAD :: "8 word" where "USB_DFU_DNLOAD = 1"
definition USB_DFU_UPLOAD :: "8 word" where "USB_DFU_UPLOAD = 2"
definition USB_DFU_GETSTATUS :: "8 word" where "USB_DFU_GETSTATUS = 3"
definition USB_DFU_CLRSTATUS :: "8 word" where "USB_DFU_CLRSTATUS = 4"
definition USB_DFU_GETSTATE :: "8 word" where "USB_DFU_GETSTATE = 5"
definition USB_DFU_ABORT :: "8 word" where "USB_DFU_ABORT = 6"

text \<open>
  Modelled from the spec: the two masks dfudf.c tests \<open>bmAttributes\<close> with, macros of
  usb\_protocol\_dfu.h (not among the sources). The spec calls them the capability flags
  "downloading is supported at all" and "manifestation-tolerant"; the bits are those of
  the DFU 1.1 functional descriptor (bitCanDnload is bit 0, bitManifestationTolerant is
  bit 2).
\<close>

definition USB_REQ_DFU_DNLOAD :: "8 word" where
  "USB_REQ_DFU_DNLOAD = 0x01"

definition USB_DFU_ATTRIBUTES_MANIFEST_TOLERANT :: "8 word" where
  "USB_DFU_ATTRIBUTES_MANIFEST_TOLERANT = 0x04"

text \<open>
  \<open>usb_dfu_func_desc_t\<close>: the DFU functional descriptor. dfudf.c reads it through the
  constant \<open>usb_dfu_func_desc\<close>, whose bytes come from the macro \<open>DFUD_IFACE_DESCB\<close> of
  dfudf\_desc.h, which is not among the sources: the descriptor is a parameter of the
  handlers. Only \<open>bmAttributes\<close> is read.
\<close>

record usb_dfu_func_desc_t =
  bmAttributes :: "8 word"

text \<open>\<open>struct usb_req\<close>: the eight bytes of a control request's setup packet.\<close>

record usb_req =
  bmRequestType :: "8 word"
  bRequest :: "8 word"
  wValue :: "16 word"
  wIndex :: "16 word"
  wLength :: "16 word"

text \<open>
  \<open>enum usb_ctrl_stage\<close> of the device stack: dfudf.c names the setup and the data
  stage; the stack's third value, the status stage, is kept so that every comparison of
  the source has its else branch.
\<close>

datatype usb_ctrl_stage = USB_SETUP_STAGE | USB_DATA_STAGE | USB_STATUS_STAGE

text \<open>
  The operation status the handlers return (\<open>int32_t\<close>, the \<open>ERR_\<close> codes of the
  device stack). \<open>ERR_OTHER\<close> stands for any code dfudf.c does not name, which
  \<open>usbdc_xfer\<close> may report.
\<close>

datatype err_code =
    ERR_NONE
  | ERR_NOT_FOUND
  | ERR_INVALID_ARG
  | ERR_UNSUPPORTED_OP
  | ERR_OTHER int

definition USB_EP_DIR_IN :: "8 word" where
  "USB_EP_DIR_IN = 0x80"

subsection \<open>The globals and the transfer primitive\<close>

text \<open>
  The second argument of \<open>usbdc_xfer\<close>: \<open>NULL\<close>, the local array \<open>response\<close> (the bytes
  that are sent, that is its first \<open>size\<close> bytes), or the global staging buffer
  \<open>dfu_download_data\<close>, which the stack then fills with the data stage's bytes.
\<close>

datatype xfer_buf = Buf_NULL | Buf_response "8 word list" | Buf_dfu_download_data

record usbdc_xfer_call =
  xfer_ep :: "8 word"
  xfer_buf :: xfer_buf
  xfer_size :: "32 word"
  xfer_zlp :: bool

record dfudf_globals =
  func_iface :: "8 word"
  enabled :: bool
  dfu_state :: usb_dfu_state
  dfu_status :: usb_dfu_status
  dfu_download_data :: "8 word list"
  dfu_download_length :: "16 word"
  dfu_download_offset :: "32 word"
  dfu_manifestation_complete :: bool
  xfers :: "usbdc_xfer_call list"

text \<open>
  The initialisers of the globals; \<open>_dfudf_funcd\<close> is a static without initialiser:
  zero. \<open>size_t\<close> is 32 bits wide on the driver's target (a Cortex-M microcontroller);
  \<open>wValue * sizeof(dfu_download_data)\<close> is at most 65535 * 512 and does not wrap there.
\<close>

definition dfudf_globals_init :: dfudf_globals where
  "dfudf_globals_init =
     \<lparr>func_iface = 0, enabled = False,
      dfu_state = USB_DFU_STATE_DFU_IDLE, dfu_status = USB_DFU_STATUS_OK,
      dfu_download_data = replicate 512 0, dfu_download_length = 0,
      dfu_download_offset = 0, dfu_manifestation_complete = False,
      xfers = []\<rparr>"

text \<open>
  Modelled from the spec: \<open>usbdc_xfer\<close>, the transfer primitive of the device stack,
  which is not among the sources: it queues a response payload or a zero-length
  acknowledgment on the control channel. The call is appended to \<open>xfers\<close>; the status
  it returns is not decided by dfudf.c and is the parameter \<open>rc\<close>.
\<close>

definition usbdc_xfer ::
  "err_code \<Rightarrow> 8 word \<Rightarrow> xfer_buf \<Rightarrow> 32 word \<Rightarrow> bool \<Rightarrow> dfudf_globals
     \<Rightarrow> err_code \<times> dfudf_globals" where
  "usbdc_xfer rc ep buf sz zlp s =
     (rc, s\<lparr>xfers := xfers s @
        [\<lparr>xfer_ep = ep, xfer_buf = buf, xfer_size = sz, xfer_zlp = zlp\<rparr>]\<rparr>)"

subsection \<open>The request handlers\<close>

text \<open>
  \<open>dfudf_in_req\<close>. The data stage returns at once. \<open>response[0] = dfu_status\<close> and
  \<open>response[4] = dfu_state\<close> convert the enumerator's value to \<open>uint8_t\<close>. The state is
  read into the response before \<open>usbdc_xfer\<close> is called and advanced after it.
\<close>

definition dfudf_in_req ::
  "usb_dfu_func_desc_t \<Rightarrow> err_code \<Rightarrow> 8 word \<Rightarrow> usb_req \<Rightarrow> usb_ctrl_stage \<Rightarrow> dfudf_globals
     \<Rightarrow> err_code \<times> dfudf_globals" where
  "dfudf_in_req usb_dfu_func_desc rc ep req stage s =
     (if stage = USB_DATA_STAGE then (ERR_NONE, s)
      else if bRequest req = USB_DFU_UPLOAD then
        (ERR_UNSUPPORTED_OP, s\<lparr>dfu_state := USB_DFU_STATE_DFU_ERROR\<rparr>)
      else if bRequest req = USB_DFU_GETSTATUS then
        (let response = [of_nat (usb_dfu_status_value (dfu_status s)), 10, 0, 0,
                         of_nat (usb_dfu_state_value (dfu_state s)), 0];
             (to_return, s1) = usbdc_xfer rc ep (Buf_response response) 6 False s
         in (to_return,
             if dfu_state s1 = USB_DFU_STATE_DFU_DNLOAD_SYNC then
               s1\<lparr>dfu_state := USB_DFU_STATE_DFU_DNBUSY\<rparr>
             else if dfu_state s1 = USB_DFU_STATE_DFU_MANIFEST_SYNC then
               (if \<not> dfu_manifestation_complete s1 then
                  s1\<lparr>dfu_state := USB_DFU_STATE_DFU_MANIFEST\<rparr>
                else if bmAttributes usb_dfu_func_desc AND USB_DFU_ATTRIBUTES_MANIFEST_TOLERANT \<noteq> 0 then
                  s1\<lparr>dfu_state := USB_DFU_STATE_DFU_IDLE\<rparr>
                else s1\<lparr>dfu_state := USB_DFU_STATE_DFU_MANIFEST_WAIT_RESET\<rparr>)
             else s1))
      else if bRequest req = USB_DFU_GETSTATE then
        usbdc_xfer rc ep (Buf_response [of_nat (usb_dfu_state_value (dfu_state s))]) 1 False s
      else (ERR_INVALID_ARG, s\<lparr>dfu_state := USB_DFU_STATE_DFU_ERROR\<rparr>))"

text \<open>
  \<open>dfudf_out_req\<close>. \<open>sizeof(dfu_download_data)\<close> is 512. The handler never writes the
  staging buffer itself: in the setup stage of an accepted download it hands the buffer
  to \<open>usbdc_xfer\<close>, and in any other stage it records offset and length.
\<close>

definition dfudf_out_req ::
  "usb_dfu_func_desc_t \<Rightarrow> err_code \<Rightarrow> 8 word \<Rightarrow> usb_req \<Rightarrow> usb_ctrl_stage \<Rightarrow> dfudf_globals
     \<Rightarrow> err_code \<times> dfudf_globals" where
  "dfudf_out_req usb_dfu_func_desc rc ep req stage s =
     (if bRequest req = USB_DFU_DETACH then
        (ERR_UNSUPPORTED_OP, s\<lparr>dfu_state := USB_DFU_STATE_DFU_ERROR\<rparr>)
      else if bRequest req = USB_DFU_CLRSTATUS then
        usbdc_xfer rc ep Buf_NULL 0 False
          (if USB_DFU_STATE_DFU_ERROR = dfu_state s \<or> USB_DFU_STATUS_OK \<noteq> dfu_status s then
             s\<lparr>dfu_status := USB_DFU_STATUS_OK, dfu_state := USB_DFU_STATE_DFU_IDLE\<rparr>
           else s)
      else if bRequest req = USB_DFU_ABORT then
        usbdc_xfer rc ep Buf_NULL 0 False
          (s\<lparr>dfu_download_offset := 0, dfu_state := USB_DFU_STATE_DFU_IDLE\<rparr>)
      else if bRequest req = USB_DFU_DNLOAD then
        (if bmAttributes usb_dfu_func_desc AND USB_REQ_DFU_DNLOAD = 0 then
           (ERR_UNSUPPORTED_OP, s\<lparr>dfu_state := USB_DFU_STATE_DFU_ERROR\<rparr>)
         else if USB_DFU_STATE_DFU_IDLE \<noteq> dfu_state s
                 \<and> USB_DFU_STATE_DFU_DNLOAD_IDLE \<noteq> dfu_state s then
           (ERR_INVALID_ARG,
            s\<lparr>dfu_status := USB_DFU_STATUS_ERR_PROG, dfu_state := USB_DFU_STATE_DFU_ERROR\<rparr>)
         else if USB_DFU_STATE_DFU_IDLE = dfu_state s \<and> 0 = wLength req then
           (ERR_INVALID_ARG,
            s\<lparr>dfu_status := USB_DFU_STATUS_ERR_PROG, dfu_state := USB_DFU_STATE_DFU_ERROR\<rparr>)
         else if USB_DFU_STATE_DFU_DNLOAD_IDLE = dfu_state s \<and> 0 = wLength req then
           usbdc_xfer rc ep Buf_NULL 0 False
             (s\<lparr>dfu_manifestation_complete := False,
                dfu_state := USB_DFU_STATE_DFU_MANIFEST_SYNC\<rparr>)
         else if unat (wLength req) > 512 then
           (ERR_INVALID_ARG,
            s\<lparr>dfu_status := USB_DFU_STATUS_ERR_PROG, dfu_state := USB_DFU_STATE_DFU_ERROR\<rparr>)
         else if USB_SETUP_STAGE = stage then
           usbdc_xfer rc ep Buf_dfu_download_data (ucast (wLength req)) False s
         else
           usbdc_xfer rc ep Buf_NULL 0 False
             (s\<lparr>dfu_download_offset := ucast (wValue req) * 512,
                dfu_download_length := wLength req,
                dfu_state := USB_DFU_STATE_DFU_DNLOAD_SYNC\<rparr>))
      else (ERR_INVALID_ARG, s\<lparr>dfu_state := USB_DFU_STATE_DFU_ERROR\<rparr>))"

text \<open>
  \<open>dfudf_req\<close>, the entry point registered with the device stack: class requests for
  the bound interface go to one of the two handlers, by the direction bit.
\<close>

definition dfudf_req ::
  "usb_dfu_func_desc_t \<Rightarrow> err_code \<Rightarrow> 8 word \<Rightarrow> usb_req \<Rightarrow> usb_ctrl_stage \<Rightarrow> dfudf_globals
     \<Rightarrow> err_code \<times> dfudf_globals" where
  "dfudf_req usb_dfu_func_desc rc ep req stage s =
     (if drop_bit 5 (bmRequestType req) AND 0x03 \<noteq> 0x01 then (ERR_NOT_FOUND, s)
      else if wIndex req = ucast (func_iface s) then
        (if bmRequestType req AND USB_EP_DIR_IN \<noteq> 0 then
           dfudf_in_req usb_dfu_func_desc rc ep req stage s
         else dfudf_out_req usb_dfu_func_desc rc ep req stage s)
      else (ERR_NOT_FOUND, s))"

section \<open>Properties\<close>

subsection \<open>Auxiliary facts\<close>

lemmas dfu_request_codes =
  USB_DFU_DETACH_def USB_DFU_DNLOAD_def USB_DFU_UPLOAD_def USB_DFU_GETSTATUS_def
  USB_DFU_CLRSTATUS_def USB_DFU_GETSTATE_def USB_DFU_ABORT_def

text \<open>The enumerator values fit the byte they are stored in.\<close>

lemma usb_dfu_state_value_byte:
  "unat (of_nat (usb_dfu_state_value st) :: 8 word) = usb_dfu_state_value st"
  by (cases st) simp_all

text \<open>
  Called for the data stage, the inbound handler returns at once, whatever the request
  and the state: nothing is queued and nothing changes.
\<close>

lemma dfudf_in_req_data_stage:
  "dfudf_in_req desc rc ep req USB_DATA_STAGE s = (ERR_NONE, s)"
  by (simp add: dfudf_in_req_def)

text \<open>No inbound request touches the status.\<close>

lemma dfudf_in_req_status:
  "dfu_status (snd (dfudf_in_req desc rc ep req stage s)) = dfu_status s"
  by (simp add: dfudf_in_req_def usbdc_xfer_def Let_def dfu_request_codes)

text \<open>An inbound request leaves the state Error alone.\<close>

lemma dfudf_in_req_state:
  "dfu_state (snd (dfudf_in_req desc rc ep req stage s)) = dfu_state s
   \<or> dfu_state (snd (dfudf_in_req desc rc ep req stage s)) = USB_DFU_STATE_DFU_ERROR
   \<or> dfu_state s \<noteq> USB_DFU_STATE_DFU_ERROR"
  by (simp add: dfudf_in_req_def usbdc_xfer_def Let_def dfu_request_codes)

text \<open>
  What an outbound request can do to the status: nothing, set the program error
  together with the state Error, or (CLRSTATUS only) clear it together with the state
  Idle.
\<close>

lemma dfudf_out_req_status:
  assumes "dfudf_out_req desc rc ep req stage s = (r, s')"
  shows "dfu_status s' = dfu_status s
       \<or> dfu_status s' = USB_DFU_STATUS_ERR_PROG \<and> dfu_state s' = USB_DFU_STATE_DFU_ERROR
       \<or> bRequest req = USB_DFU_CLRSTATUS \<and> dfu_status s' = USB_DFU_STATUS_OK
            \<and> dfu_state s' = USB_DFU_STATE_DFU_IDLE"
  using assms
  by (auto simp add: dfudf_out_req_def usbdc_xfer_def dfu_request_codes split: if_splits)

lemma dfudf_out_req_clrstatus_status:
  assumes "bRequest req = USB_DFU_CLRSTATUS"
  shows "dfu_status (snd (dfudf_out_req desc rc ep req stage s)) = USB_DFU_STATUS_OK"
  using assms by (simp add: dfudf_out_req_def usbdc_xfer_def dfu_request_codes)

text \<open>
  What an outbound request can do to the state: only ABORT and CLRSTATUS leave the
  state Error for another one.
\<close>

lemma dfudf_out_req_state:
  assumes "dfudf_out_req desc rc ep req stage s = (r, s')"
  shows "dfu_state s' = USB_DFU_STATE_DFU_ERROR
       \<or> bRequest req = USB_DFU_CLRSTATUS \<and> dfu_status s' = USB_DFU_STATUS_OK
       \<or> bRequest req = USB_DFU_ABORT
       \<or> dfu_state s \<noteq> USB_DFU_STATE_DFU_ERROR"
  using assms
  by (auto simp add: dfudf_out_req_def usbdc_xfer_def dfu_request_codes split: if_splits)

subsection \<open>The download and poll sequence\<close>

text \<open>
  C1 (as amended). Starting from state Idle on a device whose descriptor enables
  download, a download request with length 64 and block index 0, handled after its
  setup stage (the data phase), is acknowledged with a zero-length transfer and puts the
  machine in DnloadSync with offset 0 and length 64. A GetStatus poll handled next
  (outside its data stage) queues the 6-byte response
  [status, 10, 0, 0, DnloadSync, 0] and leaves the machine in DnBusy: the response is
  built from the state the poll found, before the state is advanced, and its first byte
  is the status the sequence started with.
\<close>

theorem download_then_getstatus:
  assumes "bmAttributes desc AND USB_REQ_DFU_DNLOAD \<noteq> 0"
    and "dfu_state s = USB_DFU_STATE_DFU_IDLE"
    and "bRequest dn = USB_DFU_DNLOAD" and "wLength dn = 64" and "wValue dn = 0"
    and "stage \<noteq> USB_SETUP_STAGE"
    and "bRequest gs = USB_DFU_GETSTATUS" and "stage' \<noteq> USB_DATA_STAGE"
    and "dfudf_out_req desc rc ep dn stage s = (r1, s1)"
    and "dfudf_in_req desc rc' ep' gs stage' s1 = (r2, s2)"
  shows "dfu_state s1 = USB_DFU_STATE_DFU_DNLOAD_SYNC
       \<and> dfu_download_offset s1 = 0 \<and> dfu_download_length s1 = 64
       \<and> xfers s1 = xfers s @
            [\<lparr>xfer_ep = ep, xfer_buf = Buf_NULL, xfer_size = 0, xfer_zlp = False\<rparr>]
       \<and> dfu_state s2 = USB_DFU_STATE_DFU_DNBUSY
       \<and> xfers s2 = xfers s1 @
            [\<lparr>xfer_ep = ep',
              xfer_buf = Buf_response
                [of_nat (usb_dfu_status_value (dfu_status s)), 10, 0, 0,
                 of_nat (usb_dfu_state_value USB_DFU_STATE_DFU_DNLOAD_SYNC), 0],
              xfer_size = 6, xfer_zlp = False\<rparr>]"
proof -
  have s1: "s1 = s\<lparr>dfu_download_offset := 0, dfu_download_length := 64,
                    dfu_state := USB_DFU_STATE_DFU_DNLOAD_SYNC,
                    xfers := xfers s @
                      [\<lparr>xfer_ep = ep, xfer_buf = Buf_NULL, xfer_size = 0, xfer_zlp = False\<rparr>]\<rparr>"
    using assms(1-6,9)
    by (simp add: dfudf_out_req_def usbdc_xfer_def dfu_request_codes)
  have s2: "s2 = s1\<lparr>xfers := xfers s1 @
            [\<lparr>xfer_ep = ep',
              xfer_buf = Buf_response
                [of_nat (usb_dfu_status_value (dfu_status s1)), 10, 0, 0,
                 of_nat (usb_dfu_state_value USB_DFU_STATE_DFU_DNLOAD_SYNC), 0],
              xfer_size = 6, xfer_zlp = False\<rparr>],
            dfu_state := USB_DFU_STATE_DFU_DNBUSY\<rparr>"
    using assms(7,8,10) s1
    by (simp add: dfudf_in_req_def usbdc_xfer_def dfu_request_codes)
  show ?thesis
    by (simp add: s2) (simp add: s1)
qed

text \<open>
  The sequence run from the initial globals: the poll's response is
  [0, 10, 0, 0, 3, 0], status Ok and state dfuDNLOAD-SYNC.
\<close>

theorem download_then_getstatus_witness:
  "bmAttributes \<lparr>bmAttributes = 0x01\<rparr> AND USB_REQ_DFU_DNLOAD \<noteq> 0
   \<and> dfu_state dfudf_globals_init = USB_DFU_STATE_DFU_IDLE
   \<and> dfu_state (snd (dfudf_out_req \<lparr>bmAttributes = 0x01\<rparr> ERR_NONE 0
        \<lparr>bmRequestType = 0x21, bRequest = USB_DFU_DNLOAD, wValue = 0, wIndex = 0, wLength = 64\<rparr>
        USB_DATA_STAGE dfudf_globals_init)) = USB_DFU_STATE_DFU_DNLOAD_SYNC
   \<and> dfu_state (snd (dfudf_in_req \<lparr>bmAttributes = 0x01\<rparr> ERR_NONE 0
        \<lparr>bmRequestType = 0xA1, bRequest = USB_DFU_GETSTATUS, wValue = 0, wIndex = 0, wLength = 6\<rparr>
        USB_SETUP_STAGE
        (snd (dfudf_out_req \<lparr>bmAttributes = 0x01\<rparr> ERR_NONE 0
           \<lparr>bmRequestType = 0x21, bRequest = USB_DFU_DNLOAD, wValue = 0, wIndex = 0, wLength = 64\<rparr>
           USB_DATA_STAGE dfudf_globals_init)))) = USB_DFU_STATE_DFU_DNBUSY
   \<and> xfers (snd (dfudf_in_req \<lparr>bmAttributes = 0x01\<rparr> ERR_NONE 0
        \<lparr>bmRequestType = 0xA1, bRequest = USB_DFU_GETSTATUS, wValue = 0, wIndex = 0, wLength = 6\<rparr>
        USB_SETUP_STAGE
        (snd (dfudf_out_req \<lparr>bmAttributes = 0x01\<rparr> ERR_NONE 0
           \<lparr>bmRequestType = 0x21, bRequest = USB_DFU_DNLOAD, wValue = 0, wIndex = 0, wLength = 64\<rparr>
           USB_DATA_STAGE dfudf_globals_init)))) =
       [\<lparr>xfer_ep = 0, xfer_buf = Buf_NULL, xfer_size = 0, xfer_zlp = False\<rparr>,
        \<lparr>xfer_ep = 0, xfer_buf = Buf_response [0, 10, 0, 0, 3, 0], xfer_size = 6,
          xfer_zlp = False\<rparr>]"
  using download_then_getstatus [of "\<lparr>bmAttributes = 0x01\<rparr>" dfudf_globals_init
      "\<lparr>bmRequestType = 0x21, bRequest = USB_DFU_DNLOAD, wValue = 0, wIndex = 0, wLength = 64\<rparr>"
      USB_DATA_STAGE
      "\<lparr>bmRequestType = 0xA1, bRequest = USB_DFU_GETSTATUS, wValue = 0, wIndex = 0, wLength = 6\<rparr>"
      USB_SETUP_STAGE ERR_NONE 0 _ _ ERR_NONE 0,
      OF _ _ _ _ _ _ _ _ surjective_pairing surjective_pairing]
  by (simp add: USB_REQ_DFU_DNLOAD_def dfudf_globals_init_def)

text \<open>
  The claim as written fails: the fifth byte of the response is the code of DnloadSync
  (3), not of DnBusy (4), although the machine is in DnBusy afterwards.
\<close>

theorem getstatus_reports_old_state_counterexample:
  "dfu_state (snd (dfudf_in_req \<lparr>bmAttributes = 0x01\<rparr> ERR_NONE 0
        \<lparr>bmRequestType = 0xA1, bRequest = USB_DFU_GETSTATUS, wValue = 0, wIndex = 0, wLength = 6\<rparr>
        USB_SETUP_STAGE
        (snd (dfudf_out_req \<lparr>bmAttributes = 0x01\<rparr> ERR_NONE 0
           \<lparr>bmRequestType = 0x21, bRequest = USB_DFU_DNLOAD, wValue = 0, wIndex = 0, wLength = 64\<rparr>
           USB_DATA_STAGE dfudf_globals_init)))) = USB_DFU_STATE_DFU_DNBUSY
   \<and> xfer_buf (last (xfers (snd (dfudf_in_req \<lparr>bmAttributes = 0x01\<rparr> ERR_NONE 0
        \<lparr>bmRequestType = 0xA1, bRequest = USB_DFU_GETSTATUS, wValue = 0, wIndex = 0, wLength = 6\<rparr>
        USB_SETUP_STAGE
        (snd (dfudf_out_req \<lparr>bmAttributes = 0x01\<rparr> ERR_NONE 0
           \<lparr>bmRequestType = 0x21, bRequest = USB_DFU_DNLOAD, wValue = 0, wIndex = 0, wLength = 64\<rparr>
           USB_DATA_STAGE dfudf_globals_init)))))) = Buf_response [0, 10, 0, 0, 3, 0]
   \<and> Buf_response [0, 10, 0, 0, 3, 0] \<noteq>
       Buf_response [of_nat (usb_dfu_status_value USB_DFU_STATUS_OK), 10, 0, 0,
                     of_nat (usb_dfu_state_value USB_DFU_STATE_DFU_DNBUSY), 0]"
  by (simp add: dfudf_in_req_def dfudf_out_req_def usbdc_xfer_def dfu_request_codes
        dfudf_globals_init_def USB_REQ_DFU_DNLOAD_def)

subsection \<open>Status and the state Error\<close>

text \<open>
  C2 (as amended). A non-Ok status stays non-Ok until a clear-status request is
  processed: no inbound request changes the status, an outbound request other than
  CLRSTATUS never turns a non-Ok status into Ok, and CLRSTATUS always leaves the status
  Ok. The state Error does not imply a non-Ok status: an UPLOAD or an unknown inbound
  code handled outside the data stage, a DETACH, an unknown outbound code, and a DNLOAD
  on a device whose descriptor does not enable download set the state to Error and
  leave the status, and every other global, as it was.
\<close>

theorem status_kept_until_cleared:
  "dfu_status (snd (dfudf_in_req desc rc ep req stage s)) = dfu_status s
   \<and> (bRequest req \<noteq> USB_DFU_CLRSTATUS \<longrightarrow> dfu_status s \<noteq> USB_DFU_STATUS_OK \<longrightarrow>
        dfu_status (snd (dfudf_out_req desc rc ep req stage s)) \<noteq> USB_DFU_STATUS_OK)
   \<and> (bRequest req = USB_DFU_CLRSTATUS \<longrightarrow>
        dfu_status (snd (dfudf_out_req desc rc ep req stage s)) = USB_DFU_STATUS_OK)
   \<and> (bRequest req = USB_DFU_UPLOAD \<longrightarrow> stage \<noteq> USB_DATA_STAGE \<longrightarrow>
        dfudf_in_req desc rc ep req stage s =
          (ERR_UNSUPPORTED_OP, s\<lparr>dfu_state := USB_DFU_STATE_DFU_ERROR\<rparr>))
   \<and> (bRequest req \<notin> {USB_DFU_UPLOAD, USB_DFU_GETSTATUS, USB_DFU_GETSTATE} \<longrightarrow>
        stage \<noteq> USB_DATA_STAGE \<longrightarrow>
        dfudf_in_req desc rc ep req stage s =
          (ERR_INVALID_ARG, s\<lparr>dfu_state := USB_DFU_STATE_DFU_ERROR\<rparr>))
   \<and> (bRequest req = USB_DFU_DETACH \<longrightarrow>
        dfudf_out_req desc rc ep req stage s =
          (ERR_UNSUPPORTED_OP, s\<lparr>dfu_state := USB_DFU_STATE_DFU_ERROR\<rparr>))
   \<and> (bRequest req \<notin> {USB_DFU_DETACH, USB_DFU_CLRSTATUS, USB_DFU_ABORT, USB_DFU_DNLOAD} \<longrightarrow>
        dfudf_out_req desc rc ep req stage s =
          (ERR_INVALID_ARG, s\<lparr>dfu_state := USB_DFU_STATE_DFU_ERROR\<rparr>))
   \<and> (bRequest req = USB_DFU_DNLOAD \<longrightarrow> bmAttributes desc AND USB_REQ_DFU_DNLOAD = 0 \<longrightarrow>
        dfudf_out_req desc rc ep req stage s =
          (ERR_UNSUPPORTED_OP, s\<lparr>dfu_state := USB_DFU_STATE_DFU_ERROR\<rparr>))"
proof (intro conjI impI)
  show "dfu_status (snd (dfudf_in_req desc rc ep req stage s)) = dfu_status s"
    by (rule dfudf_in_req_status)
next
  assume "bRequest req \<noteq> USB_DFU_CLRSTATUS" and "dfu_status s \<noteq> USB_DFU_STATUS_OK"
  with dfudf_out_req_status [OF surjective_pairing, of desc rc ep req stage s]
  show "dfu_status (snd (dfudf_out_req desc rc ep req stage s)) \<noteq> USB_DFU_STATUS_OK"
    by auto
next
  assume "bRequest req = USB_DFU_CLRSTATUS"
  then show "dfu_status (snd (dfudf_out_req desc rc ep req stage s)) = USB_DFU_STATUS_OK"
    by (rule dfudf_out_req_clrstatus_status)
next
  assume "bRequest req = USB_DFU_UPLOAD" and "stage \<noteq> USB_DATA_STAGE"
  then show "dfudf_in_req desc rc ep req stage s =
      (ERR_UNSUPPORTED_OP, s\<lparr>dfu_state := USB_DFU_STATE_DFU_ERROR\<rparr>)"
    by (simp add: dfudf_in_req_def)
next
  assume "bRequest req \<notin> {USB_DFU_UPLOAD, USB_DFU_GETSTATUS, USB_DFU_GETSTATE}"
    and "stage \<noteq> USB_DATA_STAGE"
  then show "dfudf_in_req desc rc ep req stage s =
      (ERR_INVALID_ARG, s\<lparr>dfu_state := USB_DFU_STATE_DFU_ERROR\<rparr>)"
    by (simp add: dfudf_in_req_def)
next
  assume "bRequest req = USB_DFU_DETACH"
  then show "dfudf_out_req desc rc ep req stage s =
      (ERR_UNSUPPORTED_OP, s\<lparr>dfu_state := USB_DFU_STATE_DFU_ERROR\<rparr>)"
    by (simp add: dfudf_out_req_def)
next
  assume "bRequest req \<notin> {USB_DFU_DETACH, USB_DFU_CLRSTATUS, USB_DFU_ABORT, USB_DFU_DNLOAD}"
  then show "dfudf_out_req desc rc ep req stage s =
      (ERR_INVALID_ARG, s\<lparr>dfu_state := USB_DFU_STATE_DFU_ERROR\<rparr>)"
    by (simp add: dfudf_out_req_def)
next
  assume "bRequest req = USB_DFU_DNLOAD" and "bmAttributes desc AND USB_REQ_DFU_DNLOAD = 0"
  then show "dfudf_out_req desc rc ep req stage s =
      (ERR_UNSUPPORTED_OP, s\<lparr>dfu_state := USB_DFU_STATE_DFU_ERROR\<rparr>)"
    by (simp add: dfudf_out_req_def dfu_request_codes)
qed

text \<open>
  From state Error with the program error set, an ABORT leaves the status at the
  program error and a CLRSTATUS clears it. From the initial state, with status Ok, an
  UPLOAD and the unknown code 0xFF in the setup stage, a DETACH, and a DNLOAD on a
  device with attributes 0 each end in Error with the status still Ok.
\<close>

theorem status_kept_until_cleared_witness:
  "dfu_status (snd (dfudf_out_req \<lparr>bmAttributes = 0x01\<rparr> ERR_NONE 0
        \<lparr>bmRequestType = 0x21, bRequest = USB_DFU_ABORT, wValue = 0, wIndex = 0, wLength = 0\<rparr>
        USB_SETUP_STAGE
        (dfudf_globals_init\<lparr>dfu_state := USB_DFU_STATE_DFU_ERROR,
                            dfu_status := USB_DFU_STATUS_ERR_PROG\<rparr>))) \<noteq> USB_DFU_STATUS_OK
   \<and> dfu_status (snd (dfudf_out_req \<lparr>bmAttributes = 0x01\<rparr> ERR_NONE 0
        \<lparr>bmRequestType = 0x21, bRequest = USB_DFU_CLRSTATUS, wValue = 0, wIndex = 0, wLength = 0\<rparr>
        USB_SETUP_STAGE
        (dfudf_globals_init\<lparr>dfu_state := USB_DFU_STATE_DFU_ERROR,
                            dfu_status := USB_DFU_STATUS_ERR_PROG\<rparr>))) = USB_DFU_STATUS_OK
   \<and> dfudf_in_req \<lparr>bmAttributes = 0x01\<rparr> ERR_NONE 0
        \<lparr>bmRequestType = 0xA1, bRequest = USB_DFU_UPLOAD, wValue = 0, wIndex = 0, wLength = 64\<rparr>
        USB_SETUP_STAGE dfudf_globals_init =
       (ERR_UNSUPPORTED_OP, dfudf_globals_init\<lparr>dfu_state := USB_DFU_STATE_DFU_ERROR\<rparr>)
   \<and> dfudf_in_req \<lparr>bmAttributes = 0x01\<rparr> ERR_NONE 0
        \<lparr>bmRequestType = 0xA1, bRequest = 0xFF, wValue = 0, wIndex = 0, wLength = 0\<rparr>
        USB_SETUP_STAGE dfudf_globals_init =
       (ERR_INVALID_ARG, dfudf_globals_init\<lparr>dfu_state := USB_DFU_STATE_DFU_ERROR\<rparr>)
   \<and> dfudf_out_req \<lparr>bmAttributes = 0x01\<rparr> ERR_NONE 0
        \<lparr>bmRequestType = 0x21, bRequest = USB_DFU_DETACH, wValue = 0, wIndex = 0, wLength = 0\<rparr>
        USB_SETUP_STAGE dfudf_globals_init =
       (ERR_UNSUPPORTED_OP, dfudf_globals_init\<lparr>dfu_state := USB_DFU_STATE_DFU_ERROR\<rparr>)
   \<and> dfudf_out_req \<lparr>bmAttributes = 0x01\<rparr> ERR_NONE 0
        \<lparr>bmRequestType = 0x21, bRequest = 0xFF, wValue = 0, wIndex = 0, wLength = 0\<rparr>
        USB_SETUP_STAGE dfudf_globals_init =
       (ERR_INVALID_ARG, dfudf_globals_init\<lparr>dfu_state := USB_DFU_STATE_DFU_ERROR\<rparr>)
   \<and> dfudf_out_req \<lparr>bmAttributes = 0x00\<rparr> ERR_NONE 0
        \<lparr>bmRequestType = 0x21, bRequest = USB_DFU_DNLOAD, wValue = 0, wIndex = 0, wLength = 64\<rparr>
        USB_DATA_STAGE dfudf_globals_init =
       (ERR_UNSUPPORTED_OP, dfudf_globals_init\<lparr>dfu_state := USB_DFU_STATE_DFU_ERROR\<rparr>)
   \<and> dfu_status (dfudf_globals_init\<lparr>dfu_state := USB_DFU_STATE_DFU_ERROR\<rparr>) = USB_DFU_STATUS_OK"
  using status_kept_until_cleared [of "\<lparr>bmAttributes = 0x01\<rparr>" ERR_NONE 0
      "\<lparr>bmRequestType = 0x21, bRequest = USB_DFU_ABORT, wValue = 0, wIndex = 0, wLength = 0\<rparr>"
      USB_SETUP_STAGE
      "dfudf_globals_init\<lparr>dfu_state := USB_DFU_STATE_DFU_ERROR,
                          dfu_status := USB_DFU_STATUS_ERR_PROG\<rparr>"]
    status_kept_until_cleared [of "\<lparr>bmAttributes = 0x01\<rparr>" ERR_NONE 0
      "\<lparr>bmRequestType = 0x21, bRequest = USB_DFU_CLRSTATUS, wValue = 0, wIndex = 0, wLength = 0\<rparr>"
      USB_SETUP_STAGE
      "dfudf_globals_init\<lparr>dfu_state := USB_DFU_STATE_DFU_ERROR,
                          dfu_status := USB_DFU_STATUS_ERR_PROG\<rparr>"]
    status_kept_until_cleared [of "\<lparr>bmAttributes = 0x01\<rparr>" ERR_NONE 0
      "\<lparr>bmRequestType = 0xA1, bRequest = USB_DFU_UPLOAD, wValue = 0, wIndex = 0, wLength = 64\<rparr>"
      USB_SETUP_STAGE dfudf_globals_init]
    status_kept_until_cleared [of "\<lparr>bmAttributes = 0x01\<rparr>" ERR_NONE 0
      "\<lparr>bmRequestType = 0xA1, bRequest = 0xFF, wValue = 0, wIndex = 0, wLength = 0\<rparr>"
      USB_SETUP_STAGE dfudf_globals_init]
    status_kept_until_cleared [of "\<lparr>bmAttributes = 0x01\<rparr>" ERR_NONE 0
      "\<lparr>bmRequestType = 0x21, bRequest = USB_DFU_DETACH, wValue = 0, wIndex = 0, wLength = 0\<rparr>"
      USB_SETUP_STAGE dfudf_globals_init]
    status_kept_until_cleared [of "\<lparr>bmAttributes = 0x01\<rparr>" ERR_NONE 0
      "\<lparr>bmRequestType = 0x21, bRequest = 0xFF, wValue = 0, wIndex = 0, wLength = 0\<rparr>"
      USB_SETUP_STAGE dfudf_globals_init]
    status_kept_until_cleared [of "\<lparr>bmAttributes = 0x00\<rparr>" ERR_NONE 0
      "\<lparr>bmRequestType = 0x21, bRequest = USB_DFU_DNLOAD, wValue = 0, wIndex = 0, wLength = 64\<rparr>"
      USB_DATA_STAGE dfudf_globals_init]
  by (simp add: dfu_request_codes) (simp add: dfudf_globals_init_def)

text \<open>
  The claim as written fails: an UPLOAD request received in the initial state puts the
  machine in Error and leaves the status Ok.
\<close>

theorem error_state_with_ok_status_counterexample:
  "dfu_state (snd (dfudf_in_req \<lparr>bmAttributes = 0x01\<rparr> ERR_NONE 0
        \<lparr>bmRequestType = 0xA1, bRequest = USB_DFU_UPLOAD, wValue = 0, wIndex = 0, wLength = 64\<rparr>
        USB_SETUP_STAGE dfudf_globals_init)) = USB_DFU_STATE_DFU_ERROR
   \<and> dfu_status (snd (dfudf_in_req \<lparr>bmAttributes = 0x01\<rparr> ERR_NONE 0
        \<lparr>bmRequestType = 0xA1, bRequest = USB_DFU_UPLOAD, wValue = 0, wIndex = 0, wLength = 64\<rparr>
        USB_SETUP_STAGE dfudf_globals_init)) = USB_DFU_STATUS_OK"
  by (simp add: dfudf_in_req_def dfu_request_codes dfudf_globals_init_def)


subsection \<open>Rejected downloads\<close>

text \<open>
  C3 (as amended). For every current state, a DNLOAD request whose wLength exceeds the
  staging buffer capacity (512 bytes) is rejected. When the descriptor enables download,
  the status is set to ProgramError, the state to Error, and the handler returns
  InvalidArgument; when it does not, the state is set to Error, the status is left as it
  was, and the handler returns UnsupportedOperation. In both cases the staging buffer,
  offset and length are not updated and no transfer is queued.
\<close>

theorem oversize_download_rejected:
  assumes "bRequest req = USB_DFU_DNLOAD" and "unat (wLength req) > 512"
  shows "dfudf_out_req desc rc ep req stage s =
           (if bmAttributes desc AND USB_REQ_DFU_DNLOAD = 0 then
              (ERR_UNSUPPORTED_OP, s\<lparr>dfu_state := USB_DFU_STATE_DFU_ERROR\<rparr>)
            else
              (ERR_INVALID_ARG,
               s\<lparr>dfu_status := USB_DFU_STATUS_ERR_PROG, dfu_state := USB_DFU_STATE_DFU_ERROR\<rparr>))"
proof -
  from assms(2) have "wLength req \<noteq> 0" by auto
  with assms show ?thesis
    by (simp add: dfudf_out_req_def dfu_request_codes)
qed

theorem oversize_download_rejected_witness:
  "unat (wLength \<lparr>bmRequestType = 0x21, bRequest = USB_DFU_DNLOAD, wValue = 0, wIndex = 0,
                  wLength = 513\<rparr>) > 512
   \<and> dfudf_out_req \<lparr>bmAttributes = 0x01\<rparr> ERR_NONE 0
      \<lparr>bmRequestType = 0x21, bRequest = USB_DFU_DNLOAD, wValue = 0, wIndex = 0, wLength = 513\<rparr>
      USB_SETUP_STAGE (dfudf_globals_init\<lparr>dfu_state := USB_DFU_STATE_DFU_DNLOAD_IDLE\<rparr>) =
     (ERR_INVALID_ARG,
      dfudf_globals_init\<lparr>dfu_state := USB_DFU_STATE_DFU_ERROR,
                         dfu_status := USB_DFU_STATUS_ERR_PROG\<rparr>)"
  using oversize_download_rejected [of
      "\<lparr>bmRequestType = 0x21, bRequest = USB_DFU_DNLOAD, wValue = 0, wIndex = 0, wLength = 513\<rparr>"
      "\<lparr>bmAttributes = 0x01\<rparr>" ERR_NONE 0 USB_SETUP_STAGE
      "dfudf_globals_init\<lparr>dfu_state := USB_DFU_STATE_DFU_DNLOAD_IDLE\<rparr>"]
  by (simp add: USB_REQ_DFU_DNLOAD_def dfudf_globals_init_def)

text \<open>
  The claim as written fails on a device whose descriptor does not enable download: the
  oversized request is refused as unsupported and the status stays Ok.
\<close>

theorem oversize_download_disabled_counterexample:
  "unat (513 :: 16 word) > 512
   \<and> dfudf_out_req \<lparr>bmAttributes = 0x00\<rparr> ERR_NONE 0
      \<lparr>bmRequestType = 0x21, bRequest = USB_DFU_DNLOAD, wValue = 0, wIndex = 0, wLength = 513\<rparr>
      USB_SETUP_STAGE dfudf_globals_init =
     (ERR_UNSUPPORTED_OP, dfudf_globals_init\<lparr>dfu_state := USB_DFU_STATE_DFU_ERROR\<rparr>)
   \<and> dfu_status (dfudf_globals_init\<lparr>dfu_state := USB_DFU_STATE_DFU_ERROR\<rparr>) = USB_DFU_STATUS_OK"
  by (simp add: dfudf_out_req_def dfu_request_codes dfudf_globals_init_def)

subsection \<open>Abort and clear status\<close>

text \<open>
  C4. For every current state, an ABORT request sets the state to Idle, resets the
  staged offset to zero and queues a zero-length acknowledgment on the control channel
  (a call of \<open>usbdc_xfer\<close> with no buffer and size 0). Nothing else changes, and the
  handler returns what \<open>usbdc_xfer\<close> returns.
\<close>

theorem abort_forces_idle:
  assumes "bRequest req = USB_DFU_ABORT"
  shows "dfudf_out_req desc rc ep req stage s =
           (rc, s\<lparr>dfu_download_offset := 0, dfu_state := USB_DFU_STATE_DFU_IDLE,
                  xfers := xfers s @
                    [\<lparr>xfer_ep = ep, xfer_buf = Buf_NULL, xfer_size = 0, xfer_zlp = False\<rparr>]\<rparr>)"
  using assms by (simp add: dfudf_out_req_def usbdc_xfer_def dfu_request_codes)

theorem abort_forces_idle_witness:
  "dfudf_out_req \<lparr>bmAttributes = 0x01\<rparr> ERR_NONE 0
      \<lparr>bmRequestType = 0x21, bRequest = USB_DFU_ABORT, wValue = 0, wIndex = 0, wLength = 0\<rparr>
      USB_SETUP_STAGE
      (dfudf_globals_init\<lparr>dfu_state := USB_DFU_STATE_DFU_DNBUSY, dfu_download_offset := 1024\<rparr>) =
     (ERR_NONE,
      dfudf_globals_init\<lparr>dfu_state := USB_DFU_STATE_DFU_IDLE, dfu_download_offset := 0,
        xfers := [\<lparr>xfer_ep = 0, xfer_buf = Buf_NULL, xfer_size = 0, xfer_zlp = False\<rparr>]\<rparr>)"
  using abort_forces_idle [of
      "\<lparr>bmRequestType = 0x21, bRequest = USB_DFU_ABORT, wValue = 0, wIndex = 0, wLength = 0\<rparr>"
      "\<lparr>bmAttributes = 0x01\<rparr>" ERR_NONE 0 USB_SETUP_STAGE
      "dfudf_globals_init\<lparr>dfu_state := USB_DFU_STATE_DFU_DNBUSY, dfu_download_offset := 1024\<rparr>"]
  by (simp add: dfudf_globals_init_def)

text \<open>
  C5 (as amended). A CLRSTATUS request always queues a zero-length acknowledgment. If
  the current state is Error, or the status is not Ok, it resets the status to Ok and the
  state to Idle; in a state other than Error with status Ok it leaves state and status
  unchanged.
\<close>

theorem clrstatus_effect:
  assumes "bRequest req = USB_DFU_CLRSTATUS"
  shows "dfudf_out_req desc rc ep req stage s =
           (rc, (if dfu_state s = USB_DFU_STATE_DFU_ERROR \<or> dfu_status s \<noteq> USB_DFU_STATUS_OK
                 then s\<lparr>dfu_status := USB_DFU_STATUS_OK, dfu_state := USB_DFU_STATE_DFU_IDLE\<rparr>
                 else s)
                \<lparr>xfers := xfers s @
                   [\<lparr>xfer_ep = ep, xfer_buf = Buf_NULL, xfer_size = 0, xfer_zlp = False\<rparr>]\<rparr>)"
  using assms by (auto simp add: dfudf_out_req_def usbdc_xfer_def dfu_request_codes)

theorem clrstatus_effect_witness:
  "dfudf_out_req \<lparr>bmAttributes = 0x01\<rparr> ERR_NONE 0
      \<lparr>bmRequestType = 0x21, bRequest = USB_DFU_CLRSTATUS, wValue = 0, wIndex = 0, wLength = 0\<rparr>
      USB_SETUP_STAGE
      (dfudf_globals_init\<lparr>dfu_state := USB_DFU_STATE_DFU_ERROR,
                          dfu_status := USB_DFU_STATUS_ERR_PROG\<rparr>) =
     (ERR_NONE,
      dfudf_globals_init\<lparr>xfers :=
        [\<lparr>xfer_ep = 0, xfer_buf = Buf_NULL, xfer_size = 0, xfer_zlp = False\<rparr>]\<rparr>)
   \<and> dfudf_out_req \<lparr>bmAttributes = 0x01\<rparr> ERR_NONE 0
      \<lparr>bmRequestType = 0x21, bRequest = USB_DFU_CLRSTATUS, wValue = 0, wIndex = 0, wLength = 0\<rparr>
      USB_SETUP_STAGE (dfudf_globals_init\<lparr>dfu_state := USB_DFU_STATE_DFU_DNBUSY\<rparr>) =
     (ERR_NONE,
      dfudf_globals_init\<lparr>dfu_state := USB_DFU_STATE_DFU_DNBUSY, xfers :=
        [\<lparr>xfer_ep = 0, xfer_buf = Buf_NULL, xfer_size = 0, xfer_zlp = False\<rparr>]\<rparr>)"
  using clrstatus_effect [of
      "\<lparr>bmRequestType = 0x21, bRequest = USB_DFU_CLRSTATUS, wValue = 0, wIndex = 0, wLength = 0\<rparr>"
      "\<lparr>bmAttributes = 0x01\<rparr>" ERR_NONE 0 USB_SETUP_STAGE
      "dfudf_globals_init\<lparr>dfu_state := USB_DFU_STATE_DFU_ERROR,
                          dfu_status := USB_DFU_STATUS_ERR_PROG\<rparr>"]
    clrstatus_effect [of
      "\<lparr>bmRequestType = 0x21, bRequest = USB_DFU_CLRSTATUS, wValue = 0, wIndex = 0, wLength = 0\<rparr>"
      "\<lparr>bmAttributes = 0x01\<rparr>" ERR_NONE 0 USB_SETUP_STAGE
      "dfudf_globals_init\<lparr>dfu_state := USB_DFU_STATE_DFU_DNBUSY\<rparr>"]
  by (simp add: dfudf_globals_init_def)

text \<open>
  The claim as written fails. A rejected empty download sets the program error, an
  ABORT then returns to Idle with the error still set, and a CLRSTATUS received in that
  state, which is not Error, changes the status to Ok.
\<close>

theorem clrstatus_outside_error_counterexample:
  "dfu_state (snd (dfudf_out_req \<lparr>bmAttributes = 0x01\<rparr> ERR_NONE 0
        \<lparr>bmRequestType = 0x21, bRequest = USB_DFU_ABORT, wValue = 0, wIndex = 0, wLength = 0\<rparr>
        USB_SETUP_STAGE
        (snd (dfudf_out_req \<lparr>bmAttributes = 0x01\<rparr> ERR_NONE 0
           \<lparr>bmRequestType = 0x21, bRequest = USB_DFU_DNLOAD, wValue = 0, wIndex = 0, wLength = 0\<rparr>
           USB_SETUP_STAGE dfudf_globals_init)))) = USB_DFU_STATE_DFU_IDLE
   \<and> dfu_status (snd (dfudf_out_req \<lparr>bmAttributes = 0x01\<rparr> ERR_NONE 0
        \<lparr>bmRequestType = 0x21, bRequest = USB_DFU_ABORT, wValue = 0, wIndex = 0, wLength = 0\<rparr>
        USB_SETUP_STAGE
        (snd (dfudf_out_req \<lparr>bmAttributes = 0x01\<rparr> ERR_NONE 0
           \<lparr>bmRequestType = 0x21, bRequest = USB_DFU_DNLOAD, wValue = 0, wIndex = 0, wLength = 0\<rparr>
           USB_SETUP_STAGE dfudf_globals_init)))) = USB_DFU_STATUS_ERR_PROG
   \<and> dfu_status (snd (dfudf_out_req \<lparr>bmAttributes = 0x01\<rparr> ERR_NONE 0
        \<lparr>bmRequestType = 0x21, bRequest = USB_DFU_CLRSTATUS, wValue = 0, wIndex = 0, wLength = 0\<rparr>
        USB_SETUP_STAGE
        (snd (dfudf_out_req \<lparr>bmAttributes = 0x01\<rparr> ERR_NONE 0
           \<lparr>bmRequestType = 0x21, bRequest = USB_DFU_ABORT, wValue = 0, wIndex = 0, wLength = 0\<rparr>
           USB_SETUP_STAGE
           (snd (dfudf_out_req \<lparr>bmAttributes = 0x01\<rparr> ERR_NONE 0
              \<lparr>bmRequestType = 0x21, bRequest = USB_DFU_DNLOAD, wValue = 0, wIndex = 0, wLength = 0\<rparr>
              USB_SETUP_STAGE dfudf_globals_init)))))) = USB_DFU_STATUS_OK"
  by (simp add: dfudf_out_req_def usbdc_xfer_def dfu_request_codes dfudf_globals_init_def
        USB_REQ_DFU_DNLOAD_def)

text \<open>
  C6 (as amended). A DNLOAD request with wLength = 0 received while the state is Idle is
  never accepted. When the descriptor enables download it sets the status to
  ProgramError and the state to Error and returns InvalidArgument; when it does not, it
  sets the state to Error, leaves the status as it was and returns UnsupportedOperation.
\<close>

theorem empty_download_rejected:
  assumes "bRequest req = USB_DFU_DNLOAD" and "wLength req = 0"
    and "dfu_state s = USB_DFU_STATE_DFU_IDLE"
  shows "dfudf_out_req desc rc ep req stage s =
           (if bmAttributes desc AND USB_REQ_DFU_DNLOAD = 0 then
              (ERR_UNSUPPORTED_OP, s\<lparr>dfu_state := USB_DFU_STATE_DFU_ERROR\<rparr>)
            else
              (ERR_INVALID_ARG,
               s\<lparr>dfu_status := USB_DFU_STATUS_ERR_PROG, dfu_state := USB_DFU_STATE_DFU_ERROR\<rparr>))"
  using assms by (simp add: dfudf_out_req_def dfu_request_codes)

theorem empty_download_rejected_witness:
  "dfu_state dfudf_globals_init = USB_DFU_STATE_DFU_IDLE
   \<and> dfudf_out_req \<lparr>bmAttributes = 0x01\<rparr> ERR_NONE 0
      \<lparr>bmRequestType = 0x21, bRequest = USB_DFU_DNLOAD, wValue = 0, wIndex = 0, wLength = 0\<rparr>
      USB_SETUP_STAGE dfudf_globals_init =
     (ERR_INVALID_ARG,
      dfudf_globals_init\<lparr>dfu_state := USB_DFU_STATE_DFU_ERROR,
                         dfu_status := USB_DFU_STATUS_ERR_PROG\<rparr>)"
  using empty_download_rejected [of
      "\<lparr>bmRequestType = 0x21, bRequest = USB_DFU_DNLOAD, wValue = 0, wIndex = 0, wLength = 0\<rparr>"
      dfudf_globals_init "\<lparr>bmAttributes = 0x01\<rparr>" ERR_NONE 0 USB_SETUP_STAGE]
  by (simp add: USB_REQ_DFU_DNLOAD_def dfudf_globals_init_def)

text \<open>
  The claim as written fails on a device whose descriptor does not enable download: the
  empty request is refused as unsupported and the status stays Ok.
\<close>

theorem empty_download_disabled_counterexample:
  "dfudf_out_req \<lparr>bmAttributes = 0x00\<rparr> ERR_NONE 0
      \<lparr>bmRequestType = 0x21, bRequest = USB_DFU_DNLOAD, wValue = 0, wIndex = 0, wLength = 0\<rparr>
      USB_SETUP_STAGE dfudf_globals_init =
     (ERR_UNSUPPORTED_OP, dfudf_globals_init\<lparr>dfu_state := USB_DFU_STATE_DFU_ERROR\<rparr>)
   \<and> dfu_state dfudf_globals_init = USB_DFU_STATE_DFU_IDLE
   \<and> dfu_status (dfudf_globals_init\<lparr>dfu_state := USB_DFU_STATE_DFU_ERROR\<rparr>) = USB_DFU_STATUS_OK"
  by (simp add: dfudf_out_req_def dfu_request_codes dfudf_globals_init_def)


subsection \<open>The inbound handler\<close>

text \<open>
  C7 (as amended). For every current state and every stage, a GETSTATE request leaves
  state, status, offset, length, the staging buffer and the manifestation flag
  unchanged. Handled at any stage other than the data stage, it queues exactly one
  transfer, of a single byte, and that byte equals the numeric code of the current
  state (the enumerator value, which fits a byte). Handled for the data stage it queues
  nothing.
\<close>

theorem getstate_frame:
  assumes "bRequest req = USB_DFU_GETSTATE"
  shows "dfu_state (snd (dfudf_in_req desc rc ep req stage s)) = dfu_state s
       \<and> dfu_status (snd (dfudf_in_req desc rc ep req stage s)) = dfu_status s
       \<and> dfu_download_offset (snd (dfudf_in_req desc rc ep req stage s)) = dfu_download_offset s
       \<and> dfu_download_length (snd (dfudf_in_req desc rc ep req stage s)) = dfu_download_length s
       \<and> dfu_download_data (snd (dfudf_in_req desc rc ep req stage s)) = dfu_download_data s
       \<and> dfu_manifestation_complete (snd (dfudf_in_req desc rc ep req stage s)) =
           dfu_manifestation_complete s
       \<and> xfers (snd (dfudf_in_req desc rc ep req stage s)) =
            (if stage = USB_DATA_STAGE then xfers s
             else xfers s @
               [\<lparr>xfer_ep = ep,
                 xfer_buf = Buf_response [of_nat (usb_dfu_state_value (dfu_state s))],
                 xfer_size = 1, xfer_zlp = False\<rparr>])
       \<and> unat (of_nat (usb_dfu_state_value (dfu_state s)) :: 8 word) =
           usb_dfu_state_value (dfu_state s)"
  using assms
  by (simp add: dfudf_in_req_def usbdc_xfer_def dfu_request_codes usb_dfu_state_value_byte)

theorem getstate_frame_witness:
  "dfu_state (snd (dfudf_in_req \<lparr>bmAttributes = 0x01\<rparr> ERR_NONE 0
        \<lparr>bmRequestType = 0xA1, bRequest = USB_DFU_GETSTATE, wValue = 0, wIndex = 0, wLength = 1\<rparr>
        USB_SETUP_STAGE (dfudf_globals_init\<lparr>dfu_state := USB_DFU_STATE_DFU_DNBUSY\<rparr>))) =
     USB_DFU_STATE_DFU_DNBUSY
   \<and> xfers (snd (dfudf_in_req \<lparr>bmAttributes = 0x01\<rparr> ERR_NONE 0
        \<lparr>bmRequestType = 0xA1, bRequest = USB_DFU_GETSTATE, wValue = 0, wIndex = 0, wLength = 1\<rparr>
        USB_SETUP_STAGE (dfudf_globals_init\<lparr>dfu_state := USB_DFU_STATE_DFU_DNBUSY\<rparr>))) =
     [\<lparr>xfer_ep = 0, xfer_buf = Buf_response [4], xfer_size = 1, xfer_zlp = False\<rparr>]"
  using getstate_frame [of
      "\<lparr>bmRequestType = 0xA1, bRequest = USB_DFU_GETSTATE, wValue = 0, wIndex = 0, wLength = 1\<rparr>"
      "\<lparr>bmAttributes = 0x01\<rparr>" ERR_NONE 0 USB_SETUP_STAGE
      "dfudf_globals_init\<lparr>dfu_state := USB_DFU_STATE_DFU_DNBUSY\<rparr>"]
  by (simp add: dfudf_globals_init_def)

text \<open>
  The claim as written fails for the data stage of the request: in state DnBusy the
  handler returns at once and the transfer log stays empty, so no byte carrying the
  state's code is queued.
\<close>

theorem getstate_data_stage_counterexample:
  "dfudf_in_req \<lparr>bmAttributes = 0x01\<rparr> ERR_NONE 0
      \<lparr>bmRequestType = 0xA1, bRequest = USB_DFU_GETSTATE, wValue = 0, wIndex = 0, wLength = 1\<rparr>
      USB_DATA_STAGE (dfudf_globals_init\<lparr>dfu_state := USB_DFU_STATE_DFU_DNBUSY\<rparr>) =
     (ERR_NONE, dfudf_globals_init\<lparr>dfu_state := USB_DFU_STATE_DFU_DNBUSY\<rparr>)
   \<and> xfers (snd (dfudf_in_req \<lparr>bmAttributes = 0x01\<rparr> ERR_NONE 0
      \<lparr>bmRequestType = 0xA1, bRequest = USB_DFU_GETSTATE, wValue = 0, wIndex = 0, wLength = 1\<rparr>
      USB_DATA_STAGE (dfudf_globals_init\<lparr>dfu_state := USB_DFU_STATE_DFU_DNBUSY\<rparr>))) = []"
  by (simp add: dfudf_in_req_def dfudf_globals_init_def)

text \<open>
  C8 (as amended). A GETSTATUS poll handled in state ManifestSync outside the data
  stage queues the status response, which still reports ManifestSync, and then moves
  the machine to Manifest when the manifestation-complete flag is false; when the flag
  is true it moves to Idle if the manifestation-tolerant capability bit is set and to
  ManifestWaitReset otherwise. (In the data stage the handler does nothing.)
\<close>

theorem getstatus_manifest_sync:
  assumes "bRequest req = USB_DFU_GETSTATUS" and "stage \<noteq> USB_DATA_STAGE"
    and "dfu_state s = USB_DFU_STATE_DFU_MANIFEST_SYNC"
  shows "dfudf_in_req desc rc ep req stage s =
           (rc, s\<lparr>xfers := xfers s @
                   [\<lparr>xfer_ep = ep,
                     xfer_buf = Buf_response
                       [of_nat (usb_dfu_status_value (dfu_status s)), 10, 0, 0,
                        of_nat (usb_dfu_state_value USB_DFU_STATE_DFU_MANIFEST_SYNC), 0],
                     xfer_size = 6, xfer_zlp = False\<rparr>],
                  dfu_state :=
                    (if \<not> dfu_manifestation_complete s then USB_DFU_STATE_DFU_MANIFEST
                     else if bmAttributes desc AND USB_DFU_ATTRIBUTES_MANIFEST_TOLERANT \<noteq> 0
                       then USB_DFU_STATE_DFU_IDLE
                     else USB_DFU_STATE_DFU_MANIFEST_WAIT_RESET)\<rparr>)"
  using assms by (simp add: dfudf_in_req_def usbdc_xfer_def dfu_request_codes)

text \<open>
  The three branches: flag false; flag true on a tolerant device (attributes 0x05); flag
  true on a device that is not tolerant (attributes 0x01).
\<close>

theorem getstatus_manifest_sync_witness:
  "dfu_state (snd (dfudf_in_req \<lparr>bmAttributes = 0x05\<rparr> ERR_NONE 0
        \<lparr>bmRequestType = 0xA1, bRequest = USB_DFU_GETSTATUS, wValue = 0, wIndex = 0, wLength = 6\<rparr>
        USB_SETUP_STAGE
        (dfudf_globals_init\<lparr>dfu_state := USB_DFU_STATE_DFU_MANIFEST_SYNC\<rparr>))) =
     USB_DFU_STATE_DFU_MANIFEST
   \<and> dfu_state (snd (dfudf_in_req \<lparr>bmAttributes = 0x05\<rparr> ERR_NONE 0
        \<lparr>bmRequestType = 0xA1, bRequest = USB_DFU_GETSTATUS, wValue = 0, wIndex = 0, wLength = 6\<rparr>
        USB_SETUP_STAGE
        (dfudf_globals_init\<lparr>dfu_state := USB_DFU_STATE_DFU_MANIFEST_SYNC,
                            dfu_manifestation_complete := True\<rparr>))) =
     USB_DFU_STATE_DFU_IDLE
   \<and> dfu_state (snd (dfudf_in_req \<lparr>bmAttributes = 0x01\<rparr> ERR_NONE 0
        \<lparr>bmRequestType = 0xA1, bRequest = USB_DFU_GETSTATUS, wValue = 0, wIndex = 0, wLength = 6\<rparr>
        USB_SETUP_STAGE
        (dfudf_globals_init\<lparr>dfu_state := USB_DFU_STATE_DFU_MANIFEST_SYNC,
                            dfu_manifestation_complete := True\<rparr>))) =
     USB_DFU_STATE_DFU_MANIFEST_WAIT_RESET
   \<and> xfers (snd (dfudf_in_req \<lparr>bmAttributes = 0x01\<rparr> ERR_NONE 0
        \<lparr>bmRequestType = 0xA1, bRequest = USB_DFU_GETSTATUS, wValue = 0, wIndex = 0, wLength = 6\<rparr>
        USB_SETUP_STAGE
        (dfudf_globals_init\<lparr>dfu_state := USB_DFU_STATE_DFU_MANIFEST_SYNC,
                            dfu_manifestation_complete := True\<rparr>))) =
     [\<lparr>xfer_ep = 0, xfer_buf = Buf_response [0, 10, 0, 0, 6, 0], xfer_size = 6,
       xfer_zlp = False\<rparr>]"
  using getstatus_manifest_sync [of
      "\<lparr>bmRequestType = 0xA1, bRequest = USB_DFU_GETSTATUS, wValue = 0, wIndex = 0, wLength = 6\<rparr>"
      USB_SETUP_STAGE "dfudf_globals_init\<lparr>dfu_state := USB_DFU_STATE_DFU_MANIFEST_SYNC\<rparr>"
      "\<lparr>bmAttributes = 0x05\<rparr>" ERR_NONE 0]
    getstatus_manifest_sync [of
      "\<lparr>bmRequestType = 0xA1, bRequest = USB_DFU_GETSTATUS, wValue = 0, wIndex = 0, wLength = 6\<rparr>"
      USB_SETUP_STAGE
      "dfudf_globals_init\<lparr>dfu_state := USB_DFU_STATE_DFU_MANIFEST_SYNC,
                          dfu_manifestation_complete := True\<rparr>"
      "\<lparr>bmAttributes = 0x05\<rparr>" ERR_NONE 0]
    getstatus_manifest_sync [of
      "\<lparr>bmRequestType = 0xA1, bRequest = USB_DFU_GETSTATUS, wValue = 0, wIndex = 0, wLength = 6\<rparr>"
      USB_SETUP_STAGE
      "dfudf_globals_init\<lparr>dfu_state := USB_DFU_STATE_DFU_MANIFEST_SYNC,
                          dfu_manifestation_complete := True\<rparr>"
      "\<lparr>bmAttributes = 0x01\<rparr>" ERR_NONE 0]
  by (simp add: dfudf_globals_init_def USB_DFU_ATTRIBUTES_MANIFEST_TOLERANT_def)

text \<open>
  The claim as written fails for the data stage of the poll: in state ManifestSync
  with the flag false the handler returns at once, the machine stays in ManifestSync
  and no response is queued.
\<close>

theorem getstatus_data_stage_counterexample:
  "dfudf_in_req \<lparr>bmAttributes = 0x05\<rparr> ERR_NONE 0
      \<lparr>bmRequestType = 0xA1, bRequest = USB_DFU_GETSTATUS, wValue = 0, wIndex = 0, wLength = 6\<rparr>
      USB_DATA_STAGE (dfudf_globals_init\<lparr>dfu_state := USB_DFU_STATE_DFU_MANIFEST_SYNC\<rparr>) =
     (ERR_NONE, dfudf_globals_init\<lparr>dfu_state := USB_DFU_STATE_DFU_MANIFEST_SYNC\<rparr>)
   \<and> \<not> dfu_manifestation_complete
         (dfudf_globals_init\<lparr>dfu_state := USB_DFU_STATE_DFU_MANIFEST_SYNC\<rparr>)
   \<and> xfers (dfudf_globals_init\<lparr>dfu_state := USB_DFU_STATE_DFU_MANIFEST_SYNC\<rparr>) = []
   \<and> USB_DFU_STATE_DFU_MANIFEST_SYNC \<noteq> USB_DFU_STATE_DFU_MANIFEST"
  by (simp add: dfudf_in_req_def dfudf_globals_init_def)

subsection \<open>Unknown request codes\<close>

text \<open>
  C9 (as amended). For every request code other than the ones a handler recognizes
  (DETACH, CLRSTATUS, ABORT, DNLOAD in the outbound handler; UPLOAD, GETSTATUS, GETSTATE
  in the inbound handler), the outbound handler, and the inbound handler outside the
  data stage, set the state to Error, change nothing else and return InvalidArgument.
  In the data stage the inbound handler returns no error and changes nothing. The same
  holds for \<open>dfudf_req\<close> on a class request for the bound interface whose code is none
  of the seven.
\<close>

theorem unknown_request_rejected:
  "(bRequest req \<notin> {USB_DFU_DETACH, USB_DFU_CLRSTATUS, USB_DFU_ABORT, USB_DFU_DNLOAD} \<longrightarrow>
      dfudf_out_req desc rc ep req stage s =
        (ERR_INVALID_ARG, s\<lparr>dfu_state := USB_DFU_STATE_DFU_ERROR\<rparr>))
   \<and> (bRequest req \<notin> {USB_DFU_UPLOAD, USB_DFU_GETSTATUS, USB_DFU_GETSTATE} \<longrightarrow>
      dfudf_in_req desc rc ep req stage s =
        (if stage = USB_DATA_STAGE then (ERR_NONE, s)
         else (ERR_INVALID_ARG, s\<lparr>dfu_state := USB_DFU_STATE_DFU_ERROR\<rparr>)))
   \<and> (drop_bit 5 (bmRequestType req) AND 0x03 = 0x01 \<longrightarrow>
      wIndex req = ucast (func_iface s) \<longrightarrow>
      bRequest req \<notin> {USB_DFU_DETACH, USB_DFU_CLRSTATUS, USB_DFU_ABORT, USB_DFU_DNLOAD,
                      USB_DFU_UPLOAD, USB_DFU_GETSTATUS, USB_DFU_GETSTATE} \<longrightarrow>
      dfudf_req desc rc ep req stage s =
        (if bmRequestType req AND USB_EP_DIR_IN \<noteq> 0 \<and> stage = USB_DATA_STAGE
         then (ERR_NONE, s)
         else (ERR_INVALID_ARG, s\<lparr>dfu_state := USB_DFU_STATE_DFU_ERROR\<rparr>)))"
  by (simp add: dfudf_req_def dfudf_in_req_def dfudf_out_req_def)

theorem unknown_request_rejected_witness:
  "dfudf_out_req \<lparr>bmAttributes = 0x01\<rparr> ERR_NONE 0
      \<lparr>bmRequestType = 0x21, bRequest = 0xFF, wValue = 0, wIndex = 0, wLength = 0\<rparr>
      USB_SETUP_STAGE dfudf_globals_init =
     (ERR_INVALID_ARG, dfudf_globals_init\<lparr>dfu_state := USB_DFU_STATE_DFU_ERROR\<rparr>)
   \<and> dfudf_in_req \<lparr>bmAttributes = 0x01\<rparr> ERR_NONE 0
      \<lparr>bmRequestType = 0x21, bRequest = 0xFF, wValue = 0, wIndex = 0, wLength = 0\<rparr>
      USB_SETUP_STAGE dfudf_globals_init =
     (ERR_INVALID_ARG, dfudf_globals_init\<lparr>dfu_state := USB_DFU_STATE_DFU_ERROR\<rparr>)
   \<and> dfudf_req \<lparr>bmAttributes = 0x01\<rparr> ERR_NONE 0
      \<lparr>bmRequestType = 0x21, bRequest = 0xFF, wValue = 0, wIndex = 0, wLength = 0\<rparr>
      USB_SETUP_STAGE dfudf_globals_init =
     (ERR_INVALID_ARG, dfudf_globals_init\<lparr>dfu_state := USB_DFU_STATE_DFU_ERROR\<rparr>)"
  using unknown_request_rejected [of
      "\<lparr>bmRequestType = 0x21, bRequest = 0xFF, wValue = 0, wIndex = 0, wLength = 0\<rparr>"
      "\<lparr>bmAttributes = 0x01\<rparr>" ERR_NONE 0 USB_SETUP_STAGE dfudf_globals_init]
  by (simp add: dfu_request_codes dfudf_globals_init_def USB_EP_DIR_IN_def)

text \<open>
  The claim as written fails for the data stage of an inbound request: with the
  unknown code 0xFF the handler returns no error and the state stays Idle.
\<close>

theorem unknown_in_request_data_stage_counterexample:
  "(0xFF :: 8 word) \<notin> {USB_DFU_DETACH, USB_DFU_CLRSTATUS, USB_DFU_ABORT, USB_DFU_DNLOAD,
                        USB_DFU_UPLOAD, USB_DFU_GETSTATUS, USB_DFU_GETSTATE}
   \<and> dfudf_in_req \<lparr>bmAttributes = 0x01\<rparr> ERR_NONE 0
      \<lparr>bmRequestType = 0xA1, bRequest = 0xFF, wValue = 0, wIndex = 0, wLength = 0\<rparr>
      USB_DATA_STAGE dfudf_globals_init = (ERR_NONE, dfudf_globals_init)
   \<and> dfu_state dfudf_globals_init = USB_DFU_STATE_DFU_IDLE"
  by (simp add: dfudf_in_req_def dfu_request_codes dfudf_globals_init_def)

subsection \<open>Status changes go with state changes\<close>

text \<open>
  C10 (as amended). No inbound request changes the status. An outbound request that
  changes the status either sets it to ProgramError in the same step that sets the
  state to Error, or resets it to Ok in the same step that sets the state to Idle. The
  invariant "whenever the status is non-Ok, the state is Error" is preserved by every
  inbound request and by every outbound request other than ABORT.
\<close>

theorem status_changes_with_state:
  "dfu_status (snd (dfudf_in_req desc rc ep req stage s)) = dfu_status s
   \<and> (dfu_status (snd (dfudf_out_req desc rc ep req stage s)) = dfu_status s
      \<or> dfu_status (snd (dfudf_out_req desc rc ep req stage s)) = USB_DFU_STATUS_ERR_PROG
        \<and> dfu_state (snd (dfudf_out_req desc rc ep req stage s)) = USB_DFU_STATE_DFU_ERROR
      \<or> dfu_status (snd (dfudf_out_req desc rc ep req stage s)) = USB_DFU_STATUS_OK
        \<and> dfu_state (snd (dfudf_out_req desc rc ep req stage s)) = USB_DFU_STATE_DFU_IDLE)
   \<and> ((dfu_status s \<noteq> USB_DFU_STATUS_OK \<longrightarrow> dfu_state s = USB_DFU_STATE_DFU_ERROR) \<longrightarrow>
        dfu_status (snd (dfudf_in_req desc rc ep req stage s)) \<noteq> USB_DFU_STATUS_OK \<longrightarrow>
        dfu_state (snd (dfudf_in_req desc rc ep req stage s)) = USB_DFU_STATE_DFU_ERROR)
   \<and> ((dfu_status s \<noteq> USB_DFU_STATUS_OK \<longrightarrow> dfu_state s = USB_DFU_STATE_DFU_ERROR) \<longrightarrow>
        bRequest req \<noteq> USB_DFU_ABORT \<longrightarrow>
        dfu_status (snd (dfudf_out_req desc rc ep req stage s)) \<noteq> USB_DFU_STATUS_OK \<longrightarrow>
        dfu_state (snd (dfudf_out_req desc rc ep req stage s)) = USB_DFU_STATE_DFU_ERROR)"
proof -
  obtain ri si where i: "dfudf_in_req desc rc ep req stage s = (ri, si)"
    by (rule prod.exhaust)
  obtain ro so where out: "dfudf_out_req desc rc ep req stage s = (ro, so)"
    by (rule prod.exhaust)
  have i_status: "dfu_status si = dfu_status s"
    using dfudf_in_req_status [of desc rc ep req stage s] by (simp add: i)
  have i_state: "dfu_state si = dfu_state s \<or> dfu_state si = USB_DFU_STATE_DFU_ERROR
      \<or> dfu_state s \<noteq> USB_DFU_STATE_DFU_ERROR"
    using dfudf_in_req_state [of desc rc ep req stage s] by (simp add: i)
  note o_status = dfudf_out_req_status [OF out]
  note o_state = dfudf_out_req_state [OF out]
  have "dfu_status si = dfu_status s"
    by (rule i_status)
  moreover have "dfu_status so = dfu_status s
      \<or> dfu_status so = USB_DFU_STATUS_ERR_PROG \<and> dfu_state so = USB_DFU_STATE_DFU_ERROR
      \<or> dfu_status so = USB_DFU_STATUS_OK \<and> dfu_state so = USB_DFU_STATE_DFU_IDLE"
    using o_status by blast
  moreover have "(dfu_status s \<noteq> USB_DFU_STATUS_OK \<longrightarrow> dfu_state s = USB_DFU_STATE_DFU_ERROR) \<longrightarrow>
      dfu_status si \<noteq> USB_DFU_STATUS_OK \<longrightarrow> dfu_state si = USB_DFU_STATE_DFU_ERROR"
    using i_status i_state by auto
  moreover have "(dfu_status s \<noteq> USB_DFU_STATUS_OK \<longrightarrow> dfu_state s = USB_DFU_STATE_DFU_ERROR) \<longrightarrow>
      bRequest req \<noteq> USB_DFU_ABORT \<longrightarrow>
      dfu_status so \<noteq> USB_DFU_STATUS_OK \<longrightarrow> dfu_state so = USB_DFU_STATE_DFU_ERROR"
    using o_status o_state by auto
  ultimately show ?thesis
    by (simp add: i out)
qed

text \<open>
  In state Error with the program error set, where the invariant holds, a DETACH
  request keeps both the status and the state.
\<close>

theorem status_changes_with_state_witness:
  "dfu_status (snd (dfudf_out_req \<lparr>bmAttributes = 0x01\<rparr> ERR_NONE 0
        \<lparr>bmRequestType = 0x21, bRequest = USB_DFU_DETACH, wValue = 0, wIndex = 0, wLength = 0\<rparr>
        USB_SETUP_STAGE
        (dfudf_globals_init\<lparr>dfu_state := USB_DFU_STATE_DFU_ERROR,
                            dfu_status := USB_DFU_STATUS_ERR_PROG\<rparr>))) = USB_DFU_STATUS_ERR_PROG
   \<and> dfu_state (snd (dfudf_out_req \<lparr>bmAttributes = 0x01\<rparr> ERR_NONE 0
        \<lparr>bmRequestType = 0x21, bRequest = USB_DFU_DETACH, wValue = 0, wIndex = 0, wLength = 0\<rparr>
        USB_SETUP_STAGE
        (dfudf_globals_init\<lparr>dfu_state := USB_DFU_STATE_DFU_ERROR,
                            dfu_status := USB_DFU_STATUS_ERR_PROG\<rparr>))) = USB_DFU_STATE_DFU_ERROR"
  using status_changes_with_state [of "\<lparr>bmAttributes = 0x01\<rparr>" ERR_NONE 0
      "\<lparr>bmRequestType = 0x21, bRequest = USB_DFU_DETACH, wValue = 0, wIndex = 0, wLength = 0\<rparr>"
      USB_SETUP_STAGE
      "dfudf_globals_init\<lparr>dfu_state := USB_DFU_STATE_DFU_ERROR,
                          dfu_status := USB_DFU_STATUS_ERR_PROG\<rparr>"]
  by (simp add: dfu_request_codes) (simp add: dfudf_out_req_def dfu_request_codes)

text \<open>
  The claim as written fails: the invariant is not preserved by ABORT. After a rejected
  empty download the machine is in Error with the program error set, where the
  invariant holds; the ABORT that follows puts it in Idle with the program error still
  set.
\<close>

theorem abort_breaks_invariant_counterexample:
  "dfu_state (snd (dfudf_out_req \<lparr>bmAttributes = 0x01\<rparr> ERR_NONE 0
        \<lparr>bmRequestType = 0x21, bRequest = USB_DFU_DNLOAD, wValue = 0, wIndex = 0, wLength = 0\<rparr>
        USB_SETUP_STAGE dfudf_globals_init)) = USB_DFU_STATE_DFU_ERROR
   \<and> dfu_status (snd (dfudf_out_req \<lparr>bmAttributes = 0x01\<rparr> ERR_NONE 0
        \<lparr>bmRequestType = 0x21, bRequest = USB_DFU_ABORT, wValue = 0, wIndex = 0, wLength = 0\<rparr>
        USB_SETUP_STAGE
        (snd (dfudf_out_req \<lparr>bmAttributes = 0x01\<rparr> ERR_NONE 0
           \<lparr>bmRequestType = 0x21, bRequest = USB_DFU_DNLOAD, wValue = 0, wIndex = 0, wLength = 0\<rparr>
           USB_SETUP_STAGE dfudf_globals_init)))) = USB_DFU_STATUS_ERR_PROG
   \<and> dfu_state (snd (dfudf_out_req \<lparr>bmAttributes = 0x01\<rparr> ERR_NONE 0
        \<lparr>bmRequestType = 0x21, bRequest = USB_DFU_ABORT, wValue = 0, wIndex = 0, wLength = 0\<rparr>
        USB_SETUP_STAGE
        (snd (dfudf_out_req \<lparr>bmAttributes = 0x01\<rparr> ERR_NONE 0
           \<lparr>bmRequestType = 0x21, bRequest = USB_DFU_DNLOAD, wValue = 0, wIndex = 0, wLength = 0\<rparr>
           USB_SETUP_STAGE dfudf_globals_init)))) = USB_DFU_STATE_DFU_IDLE
   \<and> USB_DFU_STATUS_ERR_PROG \<noteq> USB_DFU_STATUS_OK
   \<and> USB_DFU_STATE_DFU_IDLE \<noteq> USB_DFU_STATE_DFU_ERROR"
  by (simp add: dfudf_out_req_def usbdc_xfer_def dfu_request_codes dfudf_globals_init_def
        USB_REQ_DFU_DNLOAD_def)


end
